theory Spec2Isabelle
  imports Complex_Main
begin

section \<open>smart_position: a shallow embedding of src/smart_position.ts\<close>

text \<open>
  Conventions of the embedding.
  \<^item> A JavaScript \<open>number\<close> is a \<open>real\<close>: the geometry the function reads is finite, and
    every claim below is about comparisons and sums of such values, not about rounding.
  \<^item> The TypeScript type \<open>Alignment\<close> exists only at compile time; at run time an
    alignment is a string, and the space functions end with a \<open>throw\<close> for any other
    string. Alignments are therefore \<open>string\<close>s here and the \<open>throw\<close> is the \<open>Inl\<close> branch
    of a result of type \<open>error + 'a\<close>.
  \<^item> \<open>element.style\<close> is a record of the properties the function assigns. An assigned
    value is either a piece of text (\<open>''\<close>, \<open>'0'\<close>, \<open>'border-box'\<close>, the transform) or
    a number followed by \<open>'px'\<close>. The record holds what was assigned; how the browser
    reads an assigned value is not part of the function.
  \<^item> The browser is a parameter: the viewport size and the answer of
    \<open>element.getBoundingClientRect()\<close> as a function of the element's current inline style.
\<close>

subsection \<open>Alignment tokens (lines 1--26)\<close>

definition is_alignment :: "string \<Rightarrow> bool" where
  "is_alignment v =
     (v = ''before''
      \<or> v = ''start''
      \<or> v = ''center''
      \<or> v = ''end''
      \<or> v = ''after'')"

text \<open>The \<open>for\<close> loop of \<open>validate_alignments\<close>; \<open>push\<close> appends at the end.\<close>

fun validate_loop :: "string list \<Rightarrow> string list \<Rightarrow> string list \<Rightarrow> string list \<times> string list" where
  "validate_loop [] alignments invalid = (alignments, invalid)"
| "validate_loop (v # rest) alignments invalid =
     (if is_alignment v then validate_loop rest (alignments @ [v]) invalid
      else validate_loop rest alignments (invalid @ [v]))"

definition validate_alignments :: "string list \<Rightarrow> string list \<times> string list" where
  "validate_alignments vs = validate_loop vs [] []"

subsection \<open>Rectangles, anchors and parameters (lines 32--68)\<close>

record rect =
  rect_top :: real
  rect_bottom :: real
  rect_left :: real
  rect_right :: real

text \<open>A \<open>DOMRect\<close> also carries the size of the box.\<close>

record dom_rect = rect +
  rect_width :: real
  rect_height :: real

text \<open>
  The anchor is \<open>HTMLElement | [number, number]\<close>. An element anchor is represented by
  the rectangle its \<open>getBoundingClientRect()\<close> returns.
\<close>

datatype anchor = HTMLElement rect | Point real real

fun get_target_rect :: "anchor \<Rightarrow> rect" where
  "get_target_rect (HTMLElement r) = r"
| "get_target_rect (Point x y) =
     \<lparr>rect_top = y, rect_bottom = y, rect_left = x, rect_right = x\<rparr>"

record params =
  arg_anchor :: anchor
  arg_horizontal_preferences :: "string list"
  arg_vertical_preferences :: "string list"
  arg_margin :: "real option"

subsection \<open>The element's style and the browser\<close>

datatype css = Text string | Px real

record style =
  style_boxSizing :: css
  style_maxHeight :: css
  style_maxWidth :: css
  style_top :: css
  style_bottom :: css
  style_left :: css
  style_right :: css
  style_transform :: css

record host =
  clientWidth :: real
  clientHeight :: real
  getBoundingClientRect :: "style \<Rightarrow> dom_rect"

datatype error = Invalid_alignment string

subsection \<open>The constants of the call (lines 73--106)\<close>

text \<open>
  The nested functions of \<open>smart_position\<close> are closures over the constants computed at
  the start of the call. \<open>env\<close> is that environment.
\<close>

record env =
  target_rect :: rect
  target_center_x :: real
  target_center_y :: real
  window_height :: real
  window_width :: real
  margin :: real
  container_left :: real
  container_top :: real
  container_right :: real
  container_bottom :: real

text \<open>Lines 86--93: every property the function manages is reset.\<close>

definition reset_style :: "style \<Rightarrow> style" where
  "reset_style s =
     s\<lparr>style_boxSizing := Text ''border-box'',
       style_maxHeight := Text [],
       style_maxWidth := Text [],
       style_top := Text [],
       style_bottom := Text [],
       style_left := Text [],
       style_right := Text [],
       style_transform := Text []\<rparr>"

text \<open>
  Lines 73--106: the destructuring of the arguments (with \<open>margin = 0\<close> when it is
  absent), the anchor's rectangle and centre, the viewport, the reset, and the two probes
  of the containing block. The result is the environment and the style as the probes
  leave it.
\<close>

definition initialise :: "host \<Rightarrow> style \<Rightarrow> params \<Rightarrow> env \<times> style" where
  "initialise h s0 args =
     (let mgn = (case arg_margin args of None \<Rightarrow> 0 | Some m \<Rightarrow> m);
          tr = get_target_rect (arg_anchor args);
          cx = (rect_left tr + rect_right tr) / 2;
          cy = (rect_top tr + rect_bottom tr) / 2;
          wh = clientHeight h;
          ww = clientWidth h;
          s = reset_style s0;
          s = s\<lparr>style_left := Text ''0'', style_top := Text ''0''\<rparr>;
          r = getBoundingClientRect h s;
          cl = rect_left r;
          ct = rect_top r;
          s = s\<lparr>style_left := Text [], style_top := Text []\<rparr>;
          s = s\<lparr>style_right := Text ''0'', style_bottom := Text ''0''\<rparr>;
          r = getBoundingClientRect h s;
          cr = rect_right r;
          cb = rect_bottom r;
          s = s\<lparr>style_right := Text [], style_bottom := Text []\<rparr>
      in (\<lparr>target_rect = tr, target_center_x = cx, target_center_y = cy,
            window_height = wh, window_width = ww, margin = mgn,
            container_left = cl, container_top = ct,
            container_right = cr, container_bottom = cb\<rparr>, s))"

subsection \<open>Available space (lines 109--144)\<close>

definition get_horizontal_space :: "env \<Rightarrow> string \<Rightarrow> error + real" where
  "get_horizontal_space e alignment =
     (if alignment = ''before'' then
        Inr (rect_left (target_rect e) - 2 * margin e)
      else if alignment = ''start'' then
        Inr (window_width e - rect_left (target_rect e) - margin e)
      else if alignment = ''center'' then
        Inr (min (window_width e - target_center_x e) (target_center_x e) * 2 - 2 * margin e)
      else if alignment = ''end'' then
        Inr (rect_right (target_rect e) - margin e)
      else if alignment = ''after'' then
        Inr (window_width e - rect_right (target_rect e) - 2 * margin e)
      else Inl (Invalid_alignment alignment))"

definition get_vertical_space :: "env \<Rightarrow> string \<Rightarrow> error + real" where
  "get_vertical_space e alignment =
     (if alignment = ''before'' then
        Inr (rect_top (target_rect e) - 2 * margin e)
      else if alignment = ''start'' then
        Inr (window_height e - rect_top (target_rect e) - margin e)
      else if alignment = ''center'' then
        Inr (min (window_height e - target_center_y e) (target_center_y e) * 2 - 2 * margin e)
      else if alignment = ''end'' then
        Inr (rect_bottom (target_rect e) - margin e)
      else if alignment = ''after'' then
        Inr (window_height e - rect_bottom (target_rect e) - 2 * margin e)
      else Inl (Invalid_alignment alignment))"

subsection \<open>Choosing an alignment (lines 147--165 and 177--193)\<close>

text \<open>
  The two \<open>for\<close> loops (lines 152--162 and 181--191) are the same statements over the
  space function of their axis; \<open>preference_loop\<close> is that loop, with the space function
  and the element's current size as parameters. An exception of the space function leaves
  the loop; a fitting alignment returns at once.
\<close>

fun preference_loop ::
  "(string \<Rightarrow> error + real) \<Rightarrow> real \<Rightarrow> string list \<Rightarrow> string \<Rightarrow> real \<Rightarrow> error + string" where
  "preference_loop get_space current_size [] candidate candidate_space = Inr candidate"
| "preference_loop get_space current_size (alignment # rest) candidate candidate_space =
     (case get_space alignment of
        Inl err \<Rightarrow> Inl err
      | Inr available_space \<Rightarrow>
          if available_space \<ge> current_size then Inr alignment
          else if available_space > candidate_space then
            preference_loop get_space current_size rest alignment available_space
          else preference_loop get_space current_size rest candidate candidate_space)"

text \<open>
  \<open>preferences[0] || d\<close>: the first preference, or \<open>d\<close> when the list is empty
  (\<open>undefined\<close>) or its first entry is the empty string (the only falsy string).
\<close>

definition first_or :: "string list \<Rightarrow> string \<Rightarrow> string" where
  "first_or preferences d =
     (case preferences of [] \<Rightarrow> d | p # _ \<Rightarrow> if p = [] then d else p)"

text \<open>\<open>current_width\<close> and \<open>current_height\<close> are what the closures read from the element.\<close>

definition horizontal_alignment :: "env \<Rightarrow> real \<Rightarrow> string list \<Rightarrow> error + string" where
  "horizontal_alignment e current_width horizontal_preferences =
     preference_loop (get_horizontal_space e) current_width horizontal_preferences
       (first_or horizontal_preferences ''start'') 0"

definition vertical_alignment :: "env \<Rightarrow> real \<Rightarrow> string list \<Rightarrow> error + string" where
  "vertical_alignment e current_height vertical_preferences =
     preference_loop (get_vertical_space e) current_height vertical_preferences
       (first_or vertical_preferences ''after'') 0"

subsection \<open>Offsets (lines 167--173 and 197--203)\<close>

text \<open>The two \<open>switch\<close> statements; neither has a \<open>default\<close> case.\<close>

definition horizontal_offset :: "env \<Rightarrow> string \<Rightarrow> style \<Rightarrow> style" where
  "horizontal_offset e alignment s =
     (if alignment = ''before'' then
        s\<lparr>style_right := Px (container_right e - rect_left (target_rect e) + margin e)\<rparr>
      else if alignment = ''start'' then
        s\<lparr>style_left := Px (rect_left (target_rect e) - container_left e)\<rparr>
      else if alignment = ''center'' then
        s\<lparr>style_left := Px (target_center_x e - container_left e)\<rparr>
      else if alignment = ''end'' then
        s\<lparr>style_right := Px (container_right e - rect_right (target_rect e))\<rparr>
      else if alignment = ''after'' then
        s\<lparr>style_left := Px (rect_right (target_rect e) + margin e - container_left e)\<rparr>
      else s)"

definition vertical_offset :: "env \<Rightarrow> string \<Rightarrow> style \<Rightarrow> style" where
  "vertical_offset e alignment s =
     (if alignment = ''before'' then
        s\<lparr>style_bottom := Px (container_bottom e - rect_top (target_rect e) + margin e)\<rparr>
      else if alignment = ''start'' then
        s\<lparr>style_top := Px (rect_top (target_rect e) - container_top e)\<rparr>
      else if alignment = ''center'' then
        s\<lparr>style_top := Px (target_center_y e - container_top e)\<rparr>
      else if alignment = ''end'' then
        s\<lparr>style_bottom := Px (container_bottom e - rect_bottom (target_rect e))\<rparr>
      else if alignment = ''after'' then
        s\<lparr>style_top := Px (rect_bottom (target_rect e) + margin e - container_top e)\<rparr>
      else s)"

subsection \<open>smart_position (lines 69--208)\<close>

text \<open>
  The function returns nothing; its effect is the element's style, which is the result
  here. An invalid alignment reaching a space function ends the call with the error.
\<close>

definition smart_position :: "host \<Rightarrow> style \<Rightarrow> params \<Rightarrow> error + style" where
  "smart_position h s0 args =
     (let (e, s) = initialise h s0 args in
      case horizontal_alignment e (rect_width (getBoundingClientRect h s))
             (arg_horizontal_preferences args) of
        Inl err \<Rightarrow> Inl err
      | Inr h_alignment \<Rightarrow>
         (let s = horizontal_offset e h_alignment s in
          case get_horizontal_space e h_alignment of
            Inl err \<Rightarrow> Inl err
          | Inr max_width \<Rightarrow>
             (let s = s\<lparr>style_maxWidth := Px max_width\<rparr> in
              case vertical_alignment e (rect_height (getBoundingClientRect h s))
                     (arg_vertical_preferences args) of
                Inl err \<Rightarrow> Inl err
              | Inr v_alignment \<Rightarrow>
                 (case get_vertical_space e v_alignment of
                    Inl err \<Rightarrow> Inl err
                  | Inr max_height \<Rightarrow>
                     (let s = s\<lparr>style_maxHeight := Px max_height\<rparr>;
                          s = vertical_offset e v_alignment s;
                          translate_x = (if h_alignment = ''center'' then ''-50%'' else ''0'');
                          translate_y = (if v_alignment = ''center'' then ''-50%'' else ''0'')
                      in Inr (s\<lparr>style_transform :=
                                 Text (''translate('' @ translate_x @ '', '' @ translate_y @ '')'')\<rparr>))))))"

subsection \<open>Concrete calls\<close>

text \<open>
  The inputs at which the theorems below are evaluated. \<open>viewport_host\<close> is an 800 by 600
  viewport and an element of intrinsic size 200 by 100 whose containing block is the
  viewport: pinned at \<open>left = top = 0\<close> it lies at the origin, pinned at
  \<open>right = bottom = 0\<close> it lies in the far corner. \<open>hidden_host\<close> is the same viewport with
  an element that has no box (every measure is 0).
\<close>

definition blank_style :: style where
  "blank_style =
     \<lparr>style_boxSizing = Text [], style_maxHeight = Text [], style_maxWidth = Text [],
      style_top = Text [], style_bottom = Text [], style_left = Text [],
      style_right = Text [], style_transform = Text []\<rparr>"

definition viewport_host :: host where
  "viewport_host =
     \<lparr>clientWidth = 800, clientHeight = 600,
      getBoundingClientRect = (\<lambda>s.
        let l = (if style_right s = Text ''0'' then 600 else 0);
            t = (if style_bottom s = Text ''0'' then 500 else 0)
        in \<lparr>rect_top = t, rect_bottom = t + 100, rect_left = l, rect_right = l + 200,
            rect_width = 200, rect_height = 100\<rparr>)\<rparr>"

definition hidden_host :: host where
  "hidden_host =
     \<lparr>clientWidth = 800, clientHeight = 600,
      getBoundingClientRect = (\<lambda>s.
        \<lparr>rect_top = 0, rect_bottom = 0, rect_left = 0, rect_right = 0,
         rect_width = 0, rect_height = 0\<rparr>)\<rparr>"

text \<open>Scenarios 1, 2, 3 and 5 of the specification, completed with a vertical list.\<close>

definition scenario_1 :: params where
  "scenario_1 =
     \<lparr>arg_anchor = HTMLElement
        \<lparr>rect_top = 50, rect_bottom = 50, rect_left = 100, rect_right = 150\<rparr>,
      arg_horizontal_preferences = [''after'', ''before''],
      arg_vertical_preferences = [''before'', ''after''],
      arg_margin = None\<rparr>"

definition scenario_2 :: params where
  "scenario_2 =
     \<lparr>arg_anchor = HTMLElement
        \<lparr>rect_top = 50, rect_bottom = 50, rect_left = 100, rect_right = 150\<rparr>,
      arg_horizontal_preferences = [''before''],
      arg_vertical_preferences = [],
      arg_margin = None\<rparr>"

definition scenario_3 :: params where
  "scenario_3 =
     \<lparr>arg_anchor = Point 400 300,
      arg_horizontal_preferences = [''center''],
      arg_vertical_preferences = [''after''],
      arg_margin = Some 10\<rparr>"

definition scenario_5 :: params where
  "scenario_5 =
     \<lparr>arg_anchor = Point 400 300,
      arg_horizontal_preferences = [''middle'', ''after''],
      arg_vertical_preferences = [''after''],
      arg_margin = Some 10\<rparr>"

text \<open>An anchor point on the left edge of the viewport, with a margin of 10.\<close>

definition left_edge :: params where
  "left_edge =
     \<lparr>arg_anchor = Point 0 300,
      arg_horizontal_preferences = [''before'', ''end''],
      arg_vertical_preferences = [''after''],
      arg_margin = Some 10\<rparr>"

text \<open>An anchor point 10 pixels from the left edge, with a margin of 10.\<close>

definition near_edge :: params where
  "near_edge =
     \<lparr>arg_anchor = Point 10 300,
      arg_horizontal_preferences = [''before'', ''end''],
      arg_vertical_preferences = [''after''],
      arg_margin = Some 10\<rparr>"

text \<open>A 5 by 5 anchor element in the top left corner of the viewport, with a margin of 10.\<close>

definition corner :: params where
  "corner =
     \<lparr>arg_anchor = HTMLElement
        \<lparr>rect_top = 0, rect_bottom = 5, rect_left = 0, rect_right = 5\<rparr>,
      arg_horizontal_preferences = [''before'', ''end''],
      arg_vertical_preferences = [''before'', ''end''],
      arg_margin = Some 10\<rparr>"

section \<open>Properties of the parts\<close>

subsection \<open>The validator's loop\<close>

lemma validate_loop_filter:
  "validate_loop vs a i =
     (a @ filter is_alignment vs, i @ filter (\<lambda>v. \<not> is_alignment v) vs)"
  by (induction vs arbitrary: a i) simp_all

subsection \<open>The space functions return exactly on the five tokens\<close>

lemma horizontal_space_invalid:
  "\<not> is_alignment a \<Longrightarrow> get_horizontal_space e a = Inl (Invalid_alignment a)"
  by (simp add: is_alignment_def get_horizontal_space_def)

lemma vertical_space_invalid:
  "\<not> is_alignment a \<Longrightarrow> get_vertical_space e a = Inl (Invalid_alignment a)"
  by (simp add: is_alignment_def get_vertical_space_def)

lemma horizontal_space_Inr_iff: "(\<exists>r. get_horizontal_space e a = Inr r) = is_alignment a"
  by (auto simp: is_alignment_def get_horizontal_space_def split: if_splits)

lemma vertical_space_Inr_iff: "(\<exists>r. get_vertical_space e a = Inr r) = is_alignment a"
  by (auto simp: is_alignment_def get_vertical_space_def split: if_splits)

subsection \<open>The preference loop\<close>

text \<open>A fit ends the loop, whatever the candidate and whatever follows in the list.\<close>

lemma loop_first_fit:
  assumes "\<forall>p\<in>set pre. \<exists>q. sp p = Inr q \<and> q < w" and "sp a = Inr r" and "w \<le> r"
  shows "preference_loop sp w (pre @ a # rest) c cs = Inr a"
  using assms by (induction pre arbitrary: c cs) auto

lemma loop_member:
  "preference_loop sp w prefs c cs = Inr a \<Longrightarrow> a = c \<or> a \<in> set prefs"
  by (induction prefs arbitrary: c cs) (auto split: sum.splits if_splits)

lemma loop_result_scanned:
  "preference_loop sp w prefs c cs = Inr a \<Longrightarrow>
     a = c \<or> (a \<in> set prefs \<and> (\<exists>r. sp a = Inr r))"
  by (induction prefs arbitrary: c cs) (auto split: sum.splits if_splits)

lemma loop_head_scanned:
  "preference_loop sp w (p # rest) c cs = Inr a \<Longrightarrow> \<exists>r. sp p = Inr r"
  by (auto split: sum.splits)

lemma loop_total:
  "\<forall>p\<in>set prefs. \<exists>r. sp p = Inr r \<Longrightarrow> \<exists>a. preference_loop sp w prefs c cs = Inr a"
  by (induction prefs arbitrary: c cs) auto

text \<open>Nothing fits and nothing exceeds the candidate's space: the candidate stays.\<close>

lemma loop_keeps_candidate:
  "\<forall>p\<in>set prefs. \<exists>q. sp p = Inr q \<and> q \<le> cs \<and> q < w \<Longrightarrow>
     preference_loop sp w prefs c cs = Inr c"
  by (induction prefs arbitrary: c cs) auto

text \<open>
  Nothing fits, \<open>a\<close> has more space than the candidate and than everything before it,
  and nothing after it has more: the loop ends with \<open>a\<close>.
\<close>

lemma loop_fallback_greatest:
  assumes "\<forall>p\<in>set pre. \<exists>q. sp p = Inr q \<and> q < r" and "sp a = Inr r" and "r < w"
    and "cs < r" and "\<forall>p\<in>set rest. \<exists>q. sp p = Inr q \<and> q \<le> r"
  shows "preference_loop sp w (pre @ a # rest) c cs = Inr a"
  using assms
proof (induction pre arbitrary: c cs)
  case Nil
  have "preference_loop sp w rest a r = Inr a"
    using Nil.prems(3,5) by (intro loop_keeps_candidate) auto
  with Nil.prems show ?case by simp
next
  case (Cons p pre)
  from Cons.prems(1) obtain q where q: "sp p = Inr q" "q < r" by auto
  have pre: "\<forall>p\<in>set pre. \<exists>q. sp p = Inr q \<and> q < r" using Cons.prems(1) by simp
  have step: "preference_loop sp w (pre @ a # rest) c' cs' = Inr a" if "cs' < r" for c' cs'
    using Cons.IH[OF pre Cons.prems(2,3) that Cons.prems(5)] .
  show ?case using q Cons.prems(3,4) by (simp add: step)
qed

subsection \<open>The initial candidate\<close>

lemma first_or_valid: "is_alignment p \<Longrightarrow> first_or (p # rest) d = p"
  by (auto simp: first_or_def is_alignment_def)

subsection \<open>The chosen alignment is one of the five tokens\<close>

lemma horizontal_alignment_valid:
  assumes "horizontal_alignment e w prefs = Inr a"
  shows "is_alignment a"
proof (cases prefs)
  case Nil
  with assms show ?thesis
    by (simp add: horizontal_alignment_def first_or_def is_alignment_def)
next
  case (Cons p rest)
  with assms have p: "is_alignment p"
    using loop_head_scanned[of "get_horizontal_space e" w p rest]
      horizontal_space_Inr_iff[of e p]
    by (auto simp: horizontal_alignment_def)
  from assms have "a = first_or prefs ''start'' \<or> (\<exists>r. get_horizontal_space e a = Inr r)"
    unfolding horizontal_alignment_def by (blast dest: loop_result_scanned)
  with p Cons show ?thesis
    using horizontal_space_Inr_iff[of e a] by (auto simp: first_or_valid)
qed

lemma vertical_alignment_valid:
  assumes "vertical_alignment e w prefs = Inr a"
  shows "is_alignment a"
proof (cases prefs)
  case Nil
  with assms show ?thesis
    by (simp add: vertical_alignment_def first_or_def is_alignment_def)
next
  case (Cons p rest)
  with assms have p: "is_alignment p"
    using loop_head_scanned[of "get_vertical_space e" w p rest]
      vertical_space_Inr_iff[of e p]
    by (auto simp: vertical_alignment_def)
  from assms have "a = first_or prefs ''after'' \<or> (\<exists>r. get_vertical_space e a = Inr r)"
    unfolding vertical_alignment_def by (blast dest: loop_result_scanned)
  with p Cons show ?thesis
    using vertical_space_Inr_iff[of e a] by (auto simp: first_or_valid)
qed

lemma horizontal_alignment_chooses:
  assumes "\<forall>p\<in>set prefs. is_alignment p"
  shows "\<exists>a. horizontal_alignment e w prefs = Inr a \<and>
           (prefs \<noteq> [] \<longrightarrow> a \<in> set prefs) \<and> (prefs = [] \<longrightarrow> a = ''start'')"
proof -
  from assms have "\<forall>p\<in>set prefs. \<exists>r. get_horizontal_space e p = Inr r"
    by (simp add: horizontal_space_Inr_iff)
  then obtain a where a: "horizontal_alignment e w prefs = Inr a"
    unfolding horizontal_alignment_def using loop_total by blast
  then have "a = first_or prefs ''start'' \<or> a \<in> set prefs"
    unfolding horizontal_alignment_def by (blast dest: loop_member)
  moreover have "first_or prefs ''start'' \<in> set prefs" if "prefs \<noteq> []"
    using that assms by (cases prefs) (simp_all add: first_or_valid)
  moreover have "first_or [] ''start'' = ''start''" by (simp add: first_or_def)
  ultimately show ?thesis using a by auto
qed

lemma vertical_alignment_chooses:
  assumes "\<forall>p\<in>set prefs. is_alignment p"
  shows "\<exists>a. vertical_alignment e w prefs = Inr a \<and>
           (prefs \<noteq> [] \<longrightarrow> a \<in> set prefs) \<and> (prefs = [] \<longrightarrow> a = ''after'')"
proof -
  from assms have "\<forall>p\<in>set prefs. \<exists>r. get_vertical_space e p = Inr r"
    by (simp add: vertical_space_Inr_iff)
  then obtain a where a: "vertical_alignment e w prefs = Inr a"
    unfolding vertical_alignment_def using loop_total by blast
  then have "a = first_or prefs ''after'' \<or> a \<in> set prefs"
    unfolding vertical_alignment_def by (blast dest: loop_member)
  moreover have "first_or prefs ''after'' \<in> set prefs" if "prefs \<noteq> []"
    using that assms by (cases prefs) (simp_all add: first_or_valid)
  moreover have "first_or [] ''after'' = ''after''" by (simp add: first_or_def)
  ultimately show ?thesis using a by auto
qed

subsection \<open>The start of the call\<close>

text \<open>The probes leave the style as the reset made it.\<close>

lemma initialise_style: "snd (initialise h s0 args) = reset_style s0"
  by (simp add: initialise_def Let_def reset_style_def)

lemma initialise_env:
  "fst (initialise h s0 args) =
     \<lparr>target_rect = get_target_rect (arg_anchor args),
      target_center_x =
        (rect_left (get_target_rect (arg_anchor args))
         + rect_right (get_target_rect (arg_anchor args))) / 2,
      target_center_y =
        (rect_top (get_target_rect (arg_anchor args))
         + rect_bottom (get_target_rect (arg_anchor args))) / 2,
      window_height = clientHeight h, window_width = clientWidth h,
      margin = (case arg_margin args of None \<Rightarrow> 0 | Some m \<Rightarrow> m),
      container_left = rect_left (getBoundingClientRect h
        ((reset_style s0)\<lparr>style_left := Text ''0'', style_top := Text ''0''\<rparr>)),
      container_top = rect_top (getBoundingClientRect h
        ((reset_style s0)\<lparr>style_left := Text ''0'', style_top := Text ''0''\<rparr>)),
      container_right = rect_right (getBoundingClientRect h
        ((reset_style s0)\<lparr>style_right := Text ''0'', style_bottom := Text ''0''\<rparr>)),
      container_bottom = rect_bottom (getBoundingClientRect h
        ((reset_style s0)\<lparr>style_right := Text ''0'', style_bottom := Text ''0''\<rparr>))\<rparr>"
  by (cases s0) (simp add: initialise_def Let_def reset_style_def)

lemma reset_style_cleared:
  "style_left (reset_style s) = Text []"
  "style_right (reset_style s) = Text []"
  "style_top (reset_style s) = Text []"
  "style_bottom (reset_style s) = Text []"
  by (simp_all add: reset_style_def)

subsection \<open>The two switches\<close>

lemma vertical_offset_keeps:
  "style_left (vertical_offset e v s) = style_left s"
  "style_right (vertical_offset e v s) = style_right s"
  "style_maxWidth (vertical_offset e v s) = style_maxWidth s"
  "style_maxHeight (vertical_offset e v s) = style_maxHeight s"
  by (simp_all add: vertical_offset_def)

lemma horizontal_offset_keeps:
  "style_top (horizontal_offset e a s) = style_top s"
  "style_bottom (horizontal_offset e a s) = style_bottom s"
  by (simp_all add: horizontal_offset_def)

lemma horizontal_offset_sets:
  assumes "is_alignment a" and "style_left s = Text []" and "style_right s = Text []"
  shows "(\<exists>x. style_left (horizontal_offset e a s) = Px x)
           \<and> style_right (horizontal_offset e a s) = Text [] \<or>
         (\<exists>x. style_right (horizontal_offset e a s) = Px x)
           \<and> style_left (horizontal_offset e a s) = Text []"
  using assms by (auto simp: is_alignment_def horizontal_offset_def)

lemma vertical_offset_sets:
  assumes "is_alignment a" and "style_top s = Text []" and "style_bottom s = Text []"
  shows "(\<exists>x. style_top (vertical_offset e a s) = Px x)
           \<and> style_bottom (vertical_offset e a s) = Text [] \<or>
         (\<exists>x. style_bottom (vertical_offset e a s) = Px x)
           \<and> style_top (vertical_offset e a s) = Text []"
  using assms by (auto simp: is_alignment_def vertical_offset_def)

subsection \<open>A completed call\<close>

text \<open>
  What a call that returns has done: both alignments were chosen, both sizes computed,
  and the final style is the reset style with the two offsets, the two sizes and the
  transform.
\<close>

lemma smart_position_Inr:
  assumes "smart_position h s0 args = Inr s"
  obtains ha mw va mh where
    "horizontal_alignment (fst (initialise h s0 args))
       (rect_width (getBoundingClientRect h (reset_style s0)))
       (arg_horizontal_preferences args) = Inr ha"
    "get_horizontal_space (fst (initialise h s0 args)) ha = Inr mw"
    "vertical_alignment (fst (initialise h s0 args))
       (rect_height (getBoundingClientRect h
          ((horizontal_offset (fst (initialise h s0 args)) ha (reset_style s0))
             \<lparr>style_maxWidth := Px mw\<rparr>)))
       (arg_vertical_preferences args) = Inr va"
    "get_vertical_space (fst (initialise h s0 args)) va = Inr mh"
    "s = (vertical_offset (fst (initialise h s0 args)) va
            ((horizontal_offset (fst (initialise h s0 args)) ha (reset_style s0))
               \<lparr>style_maxWidth := Px mw, style_maxHeight := Px mh\<rparr>))
          \<lparr>style_transform :=
             Text (''translate('' @ (if ha = ''center'' then ''-50%'' else ''0'')
                   @ '', '' @ (if va = ''center'' then ''-50%'' else ''0'') @ '')'')\<rparr>"
proof -
  obtain e s1 where es: "initialise h s0 args = (e, s1)" by (cases "initialise h s0 args")
  have s1: "s1 = reset_style s0" using initialise_style[of h s0 args] es by simp
  show thesis
    using assms that unfolding smart_position_def es s1
    by (auto simp: Let_def split: sum.splits)
qed

subsection \<open>The concrete calls, evaluated\<close>

lemmas run_defs =
  smart_position_def initialise_def reset_style_def blank_style_def
  horizontal_alignment_def vertical_alignment_def first_or_def
  get_horizontal_space_def get_vertical_space_def
  horizontal_offset_def vertical_offset_def Let_def

lemma run_scenario_1:
  "smart_position viewport_host blank_style scenario_1 =
     Inr \<lparr>style_boxSizing = Text ''border-box'', style_maxHeight = Px 550,
          style_maxWidth = Px 650, style_top = Px 50, style_bottom = Text [],
          style_left = Px 150, style_right = Text [],
          style_transform = Text ''translate(0, 0)''\<rparr>"
  by (simp add: run_defs viewport_host_def scenario_1_def)

lemma run_scenario_3:
  "smart_position viewport_host blank_style scenario_3 =
     Inr \<lparr>style_boxSizing = Text ''border-box'', style_maxHeight = Px 280,
          style_maxWidth = Px 780, style_top = Px 310, style_bottom = Text [],
          style_left = Px 400, style_right = Text [],
          style_transform = Text ''translate(-50%, 0)''\<rparr>"
  by (simp add: run_defs viewport_host_def scenario_3_def)

section \<open>The claims\<close>

text \<open>
  C1 (the code departs from the claim). The claim: when no preference of a non-empty
  list fits, the preference with the greatest available space is chosen, the earliest
  one on ties; the doc comments of the two preference lists (lines 53 and 59) say the
  same. The running maximum starts at \<open>candidate_space = 0\<close> while the candidate
  starts as the first preference, so a preference whose space is not positive never
  replaces it. At an anchor point on the left edge of the viewport with a margin of 10
  and the preferences \<open>before, end\<close>, neither fits the element's width of 200; \<open>end\<close>
  has the greater space (-10 against -20), and \<open>before\<close> is chosen.
\<close>

theorem fallback_ignores_nonpositive_space:
  "rect_width (getBoundingClientRect viewport_host (reset_style blank_style)) = 200 \<and>
   get_horizontal_space (fst (initialise viewport_host blank_style left_edge)) ''before''
     = Inr (- 20) \<and>
   get_horizontal_space (fst (initialise viewport_host blank_style left_edge)) ''end''
     = Inr (- 10) \<and>
   horizontal_alignment (fst (initialise viewport_host blank_style left_edge)) 200
     [''before'', ''end''] = Inr ''before'' \<and>
   smart_position viewport_host blank_style left_edge =
     Inr \<lparr>style_boxSizing = Text ''border-box'', style_maxHeight = Px 280,
          style_maxWidth = Px (- 20), style_top = Px 310, style_bottom = Text [],
          style_left = Text [], style_right = Px 810,
          style_transform = Text ''translate(0, 0)''\<rparr>"
  by (simp add: run_defs viewport_host_def left_edge_def)

text \<open>
  Where the greatest space is positive the loop does what the claim says: if nothing
  fits, \<open>a\<close> has positive space \<open>r\<close>, everything listed before \<open>a\<close> has less space
  than \<open>r\<close> and nothing listed after it has more, then \<open>a\<close> is chosen (on each axis).
\<close>

lemma fallback_greatest_positive:
  "((\<forall>p\<in>set pre. \<exists>q. get_horizontal_space e p = Inr q \<and> q < r) \<and>
    get_horizontal_space e a = Inr r \<and> r < sz \<and> 0 < r \<and>
    (\<forall>p\<in>set rest. \<exists>q. get_horizontal_space e p = Inr q \<and> q \<le> r)
      \<longrightarrow> horizontal_alignment e sz (pre @ a # rest) = Inr a) \<and>
   ((\<forall>p\<in>set pre. \<exists>q. get_vertical_space e p = Inr q \<and> q < r) \<and>
    get_vertical_space e a = Inr r \<and> r < sz \<and> 0 < r \<and>
    (\<forall>p\<in>set rest. \<exists>q. get_vertical_space e p = Inr q \<and> q \<le> r)
      \<longrightarrow> vertical_alignment e sz (pre @ a # rest) = Inr a)"
  unfolding horizontal_alignment_def vertical_alignment_def
  using loop_fallback_greatest[where sp="get_horizontal_space e" and r=r and a=a and w=sz
          and cs=0 and pre=pre and rest=rest]
        loop_fallback_greatest[where sp="get_vertical_space e" and r=r and a=a and w=sz
          and cs=0 and pre=pre and rest=rest]
  by blast

text \<open>
  Scenario 3 at a width nothing fits: \<open>before\<close> has 380, \<open>start\<close> and \<open>end\<close> have 390,
  \<open>after\<close> has 380, and \<open>start\<close>, the earlier of the two greatest, is chosen.
\<close>

lemma fallback_greatest_positive_example:
  "get_horizontal_space (fst (initialise viewport_host blank_style scenario_3)) ''before''
     = Inr 380 \<and>
   get_horizontal_space (fst (initialise viewport_host blank_style scenario_3)) ''start''
     = Inr 390 \<and>
   get_horizontal_space (fst (initialise viewport_host blank_style scenario_3)) ''end''
     = Inr 390 \<and>
   get_horizontal_space (fst (initialise viewport_host blank_style scenario_3)) ''after''
     = Inr 380 \<and>
   horizontal_alignment (fst (initialise viewport_host blank_style scenario_3)) 900
     [''before'', ''start'', ''end'', ''after''] = Inr ''start''"
proof -
  let ?e = "fst (initialise viewport_host blank_style scenario_3)"
  have sp: "get_horizontal_space ?e ''before'' = Inr 380"
    "get_horizontal_space ?e ''start'' = Inr 390"
    "get_horizontal_space ?e ''end'' = Inr 390"
    "get_horizontal_space ?e ''after'' = Inr 380"
    by (simp_all add: initialise_env get_horizontal_space_def scenario_3_def viewport_host_def)
  have "horizontal_alignment ?e 900 ([''before''] @ ''start'' # [''end'', ''after''])
          = Inr ''start''"
    using fallback_greatest_positive[where e="?e" and pre="[''before'']" and a="''start''"
        and rest="[''end'', ''after'']" and r=390 and sz=900]
    by (simp add: sp)
  then show ?thesis by (simp add: sp)
qed

text \<open>
  C2. On each axis, if some preference has available space at least the element's size,
  the first such preference is chosen: with \<open>pre\<close> the preferences listed before it
  (none of which fits) and \<open>rest\<close> whatever is listed after it, the choice is \<open>a\<close>.
  Nothing is assumed about \<open>rest\<close>, so a later preference with more space changes
  nothing.
\<close>

theorem first_fit_wins:
  "((\<forall>p\<in>set pre. \<exists>q. get_horizontal_space e p = Inr q \<and> q < sz) \<and>
    get_horizontal_space e a = Inr r \<and> sz \<le> r
      \<longrightarrow> horizontal_alignment e sz (pre @ a # rest) = Inr a) \<and>
   ((\<forall>p\<in>set pre. \<exists>q. get_vertical_space e p = Inr q \<and> q < sz) \<and>
    get_vertical_space e a = Inr r \<and> sz \<le> r
      \<longrightarrow> vertical_alignment e sz (pre @ a # rest) = Inr a)"
  unfolding horizontal_alignment_def vertical_alignment_def
  using loop_first_fit[where sp="get_horizontal_space e" and pre=pre and w=sz and a=a and r=r]
        loop_first_fit[where sp="get_vertical_space e" and pre=pre and w=sz and a=a and r=r]
  by blast

text \<open>
  In scenario 1 with the element's width 200: \<open>before\<close> has 100 and does not fit, \<open>after\<close>
  has 650 and fits, \<open>start\<close> comes later with 700; \<open>after\<close> is chosen. Vertically with
  height 100: \<open>before\<close> has 50, \<open>end\<close> has 50, \<open>after\<close> has 550 and is chosen.
\<close>

theorem first_fit_wins_witness:
  "get_horizontal_space (fst (initialise viewport_host blank_style scenario_1)) ''before''
     = Inr 100 \<and>
   get_horizontal_space (fst (initialise viewport_host blank_style scenario_1)) ''after''
     = Inr 650 \<and>
   get_horizontal_space (fst (initialise viewport_host blank_style scenario_1)) ''start''
     = Inr 700 \<and>
   horizontal_alignment (fst (initialise viewport_host blank_style scenario_1)) 200
     [''before'', ''after'', ''start''] = Inr ''after'' \<and>
   vertical_alignment (fst (initialise viewport_host blank_style scenario_1)) 100
     [''before'', ''end'', ''after'', ''start''] = Inr ''after''"
proof -
  let ?e = "fst (initialise viewport_host blank_style scenario_1)"
  have sp: "get_horizontal_space ?e ''before'' = Inr 100"
    "get_horizontal_space ?e ''after'' = Inr 650"
    "get_horizontal_space ?e ''start'' = Inr 700"
    "get_vertical_space ?e ''before'' = Inr 50"
    "get_vertical_space ?e ''end'' = Inr 50"
    "get_vertical_space ?e ''after'' = Inr 550"
    by (simp_all add: initialise_env get_horizontal_space_def get_vertical_space_def
        scenario_1_def viewport_host_def)
  have "horizontal_alignment ?e 200 ([''before''] @ ''after'' # [''start'']) = Inr ''after''"
    using first_fit_wins[where e="?e" and pre="[''before'']" and a="''after''"
        and rest="[''start'']" and r=650 and sz=200]
    by (simp add: sp)
  moreover
  have "vertical_alignment ?e 100 ([''before'', ''end''] @ ''after'' # [''start''])
          = Inr ''after''"
    using first_fit_wins[where e="?e" and pre="[''before'', ''end'']" and a="''after''"
        and rest="[''start'']" and r=550 and sz=100]
    by (simp add: sp)
  ultimately show ?thesis by (simp add: sp)
qed

text \<open>
  C3. For every anchor rectangle \<open>a\<close>, viewport and margin \<open>m\<close> (0 when the argument is
  absent), the space functions of the call compute the table of section 4.2, with the
  anchor's centre the mean of its two edges.
\<close>

theorem space_table:
  fixes h :: host and s0 :: style and args :: params
  defines "e \<equiv> fst (initialise h s0 args)"
    and "a \<equiv> get_target_rect (arg_anchor args)"
    and "m \<equiv> (case arg_margin args of None \<Rightarrow> 0 | Some x \<Rightarrow> x)"
  defines "cx \<equiv> (rect_left a + rect_right a) / 2"
    and "cy \<equiv> (rect_top a + rect_bottom a) / 2"
  shows
    "get_horizontal_space e ''before'' = Inr (rect_left a - 2 * m) \<and>
     get_horizontal_space e ''start'' = Inr (clientWidth h - rect_left a - m) \<and>
     get_horizontal_space e ''center'' = Inr (2 * min (clientWidth h - cx) cx - 2 * m) \<and>
     get_horizontal_space e ''end'' = Inr (rect_right a - m) \<and>
     get_horizontal_space e ''after'' = Inr (clientWidth h - rect_right a - 2 * m) \<and>
     get_vertical_space e ''before'' = Inr (rect_top a - 2 * m) \<and>
     get_vertical_space e ''start'' = Inr (clientHeight h - rect_top a - m) \<and>
     get_vertical_space e ''center'' = Inr (2 * min (clientHeight h - cy) cy - 2 * m) \<and>
     get_vertical_space e ''end'' = Inr (rect_bottom a - m) \<and>
     get_vertical_space e ''after'' = Inr (clientHeight h - rect_bottom a - 2 * m)"
  unfolding e_def a_def m_def cx_def cy_def initialise_env
  by (simp add: get_horizontal_space_def get_vertical_space_def)

text \<open>
  C4. \<open>validate_alignments\<close> is a total function to a pair (it has no error result).
  For every list of strings: every element of the first component satisfies
  \<open>is_alignment\<close>, no element of the second does, the two lengths add up to the length
  of the input, each component is the input filtered by its condition (so the elements
  keep their relative order), and \<open>is_alignment\<close> is membership in the five tokens.
\<close>

theorem validate_alignments_partition:
  "(\<forall>v\<in>set (fst (validate_alignments vs)). is_alignment v) \<and>
   (\<forall>v\<in>set (snd (validate_alignments vs)). \<not> is_alignment v) \<and>
   length (fst (validate_alignments vs)) + length (snd (validate_alignments vs)) = length vs \<and>
   fst (validate_alignments vs) = filter is_alignment vs \<and>
   snd (validate_alignments vs) = filter (\<lambda>v. \<not> is_alignment v) vs \<and>
   (\<forall>v. is_alignment v = (v \<in> {''before'', ''start'', ''center'', ''end'', ''after''}))"
proof -
  have "validate_alignments vs = (filter is_alignment vs, filter (\<lambda>v. \<not> is_alignment v) vs)"
    by (simp add: validate_alignments_def validate_loop_filter)
  moreover
  have "length (filter is_alignment vs) + length (filter (\<lambda>v. \<not> is_alignment v) vs) = length vs"
    by (simp add: sum_length_filter_compl)
  moreover
  have "\<forall>v. is_alignment v = (v \<in> {''before'', ''start'', ''center'', ''end'', ''after''})"
    by (auto simp: is_alignment_def)
  ultimately show ?thesis by simp
qed

theorem validate_alignments_partition_witness:
  "validate_alignments [''before'', ''middle'', ''end'', [], ''After'', ''before''] =
     ([''before'', ''end'', ''before''], [''middle'', [], ''After'']) \<and>
   is_alignment ''before'' \<and> is_alignment ''end'' \<and>
   \<not> is_alignment ''middle'' \<and> \<not> is_alignment [] \<and> \<not> is_alignment ''After''"
  using validate_alignments_partition
    [of "[''before'', ''middle'', ''end'', [], ''After'', ''before'']"]
  by (simp add: prod_eq_iff is_alignment_def)

text \<open>
  C5. A token outside the five alignments makes each space function raise
  \<open>Invalid alignment\<close>, and each of the five tokens makes it return a number. The error
  is not caught on its way out: the loop of either axis ends with it when the token heads
  the list, and so does \<open>smart_position\<close> when the token heads the horizontal list, or
  heads the vertical list while the horizontal list holds alignments only.
\<close>

theorem invalid_alignment_raises:
  "(\<not> is_alignment a \<longrightarrow>
      get_horizontal_space e a = Inl (Invalid_alignment a) \<and>
      get_vertical_space e a = Inl (Invalid_alignment a)) \<and>
   (is_alignment a \<longrightarrow>
      (\<exists>r. get_horizontal_space e a = Inr r) \<and> (\<exists>r. get_vertical_space e a = Inr r)) \<and>
   (\<not> is_alignment a \<longrightarrow>
      horizontal_alignment e w (a # rest) = Inl (Invalid_alignment a) \<and>
      vertical_alignment e w (a # rest) = Inl (Invalid_alignment a)) \<and>
   (\<not> is_alignment a \<and> arg_horizontal_preferences args = a # rest \<longrightarrow>
      smart_position h s0 args = Inl (Invalid_alignment a)) \<and>
   (\<not> is_alignment a \<and> (\<forall>p\<in>set (arg_horizontal_preferences args). is_alignment p) \<and>
    arg_vertical_preferences args = a # rest \<longrightarrow>
      smart_position h s0 args = Inl (Invalid_alignment a))"
proof -
  obtain e' s1 where es: "initialise h s0 args = (e', s1)"
    by (cases "initialise h s0 args")
  have hor: "smart_position h s0 args = Inl (Invalid_alignment a)"
    if "\<not> is_alignment a" "arg_horizontal_preferences args = a # rest"
    using that
    by (simp add: smart_position_def es horizontal_alignment_def horizontal_space_invalid)
  have ver: "smart_position h s0 args = Inl (Invalid_alignment a)"
    if na: "\<not> is_alignment a"
      and hv: "\<forall>p\<in>set (arg_horizontal_preferences args). is_alignment p"
      and vp: "arg_vertical_preferences args = a # rest"
  proof -
    from horizontal_alignment_chooses[OF hv, of e' "rect_width (getBoundingClientRect h s1)"]
    obtain ha where ha: "horizontal_alignment e' (rect_width (getBoundingClientRect h s1))
        (arg_horizontal_preferences args) = Inr ha"
      by blast
    from ha have "is_alignment ha" by (rule horizontal_alignment_valid)
    then obtain mw where mw: "get_horizontal_space e' ha = Inr mw"
      using horizontal_space_Inr_iff[of e' ha] by blast
    show ?thesis
      unfolding smart_position_def es
      by (simp add: ha mw Let_def vertical_alignment_def vp vertical_space_invalid[OF na])
  qed
  have spaces: "\<not> is_alignment a \<longrightarrow>
      get_horizontal_space e a = Inl (Invalid_alignment a) \<and>
      get_vertical_space e a = Inl (Invalid_alignment a)"
    "is_alignment a \<longrightarrow>
      (\<exists>r. get_horizontal_space e a = Inr r) \<and> (\<exists>r. get_vertical_space e a = Inr r)"
    "\<not> is_alignment a \<longrightarrow>
      horizontal_alignment e w (a # rest) = Inl (Invalid_alignment a) \<and>
      vertical_alignment e w (a # rest) = Inl (Invalid_alignment a)"
    using horizontal_space_Inr_iff[of e a] vertical_space_Inr_iff[of e a]
    by (simp_all add: horizontal_space_invalid vertical_space_invalid
        horizontal_alignment_def vertical_alignment_def)
  from spaces hor ver show ?thesis by (intro conjI impI) simp_all
qed

text \<open>
  Scenario 5: the token \<open>middle\<close> raises in both space functions and ends the call; the
  validator puts it in its second component. The token \<open>center\<close> of scenario 3 returns
  780.
\<close>

theorem invalid_alignment_raises_witness:
  "\<not> is_alignment ''middle'' \<and>
   get_horizontal_space (fst (initialise viewport_host blank_style scenario_5)) ''middle''
     = Inl (Invalid_alignment ''middle'') \<and>
   get_vertical_space (fst (initialise viewport_host blank_style scenario_5)) ''middle''
     = Inl (Invalid_alignment ''middle'') \<and>
   smart_position viewport_host blank_style scenario_5 = Inl (Invalid_alignment ''middle'') \<and>
   validate_alignments [''middle''] = ([], [''middle'']) \<and>
   is_alignment ''center'' \<and>
   get_horizontal_space (fst (initialise viewport_host blank_style scenario_3)) ''center''
     = Inr 780"
proof -
  have bad: "\<not> is_alignment ''middle''" and good: "is_alignment ''center''"
    by (simp_all add: is_alignment_def)
  have prefs: "arg_horizontal_preferences scenario_5 = ''middle'' # [''after'']"
    by (simp add: scenario_5_def)
  have "get_horizontal_space (fst (initialise viewport_host blank_style scenario_3)) ''center''
          = Inr 780"
    by (simp add: initialise_env get_horizontal_space_def scenario_3_def viewport_host_def)
  moreover have "validate_alignments [''middle''] = ([], [''middle''])"
    by (simp add: validate_alignments_def bad)
  ultimately show ?thesis
    using bad good prefs
      invalid_alignment_raises[where a="''middle''" and args=scenario_5 and rest="[''after'']"
        and e="fst (initialise viewport_host blank_style scenario_5)"
        and h=viewport_host and ?s0.0=blank_style]
    by simp
qed

text \<open>
  C6. On each axis, for a list of alignments the choice is a single alignment: a member
  of the list when the list is not empty, and the axis default when it is (\<open>start\<close>
  horizontally, \<open>after\<close> vertically), whatever the spaces and the element's size.
\<close>

theorem one_alignment_per_axis:
  assumes "\<forall>p\<in>set hp. is_alignment p" and "\<forall>p\<in>set vp. is_alignment p"
  shows "(\<exists>a. horizontal_alignment e w hp = Inr a \<and>
            (hp \<noteq> [] \<longrightarrow> a \<in> set hp) \<and> (hp = [] \<longrightarrow> a = ''start'')) \<and>
         (\<exists>a. vertical_alignment e ht vp = Inr a \<and>
            (vp \<noteq> [] \<longrightarrow> a \<in> set vp) \<and> (vp = [] \<longrightarrow> a = ''after''))"
  using horizontal_alignment_chooses[OF assms(1)] vertical_alignment_chooses[OF assms(2)]
  by blast

text \<open>
  Scenario 4 (both lists empty): the defaults, here at sizes that no alignment could
  fit. Scenario 2 (\<open>before\<close> alone, too narrow): \<open>before\<close>.
\<close>

theorem one_alignment_per_axis_witness:
  "horizontal_alignment (fst (initialise viewport_host blank_style scenario_2)) 5000 []
     = Inr ''start'' \<and>
   vertical_alignment (fst (initialise viewport_host blank_style scenario_2)) 5000 []
     = Inr ''after'' \<and>
   horizontal_alignment (fst (initialise viewport_host blank_style scenario_2)) 300
     [''before''] = Inr ''before'' \<and>
   vertical_alignment (fst (initialise viewport_host blank_style scenario_2)) 300
     [''center''] = Inr ''center''"
proof -
  let ?e = "fst (initialise viewport_host blank_style scenario_2)"
  have valid: "\<forall>p\<in>set [''before'']. is_alignment p" "\<forall>p\<in>set [''center'']. is_alignment p"
    "\<forall>p\<in>set ([] :: string list). is_alignment p"
    by (simp_all add: is_alignment_def)
  from one_alignment_per_axis[OF valid(3) valid(3), of ?e 5000 5000]
  have empty: "horizontal_alignment ?e 5000 [] = Inr ''start''"
    "vertical_alignment ?e 5000 [] = Inr ''after''"
    by auto
  from one_alignment_per_axis[OF valid(1) valid(2), of ?e 300 300]
  have single: "horizontal_alignment ?e 300 [''before''] = Inr ''before''"
    "vertical_alignment ?e 300 [''center''] = Inr ''center''"
    by auto
  from empty single show ?thesis by simp
qed

text \<open>
  C7. When \<open>smart_position\<close> returns, with \<open>ha\<close> the horizontal alignment chosen at the
  element's width after the reset and \<open>va\<close> the vertical alignment chosen at the
  element's height once the horizontal offset and max-width are in place: max-width is
  the horizontal space of \<open>ha\<close>, max-height the vertical space of \<open>va\<close>, and the offsets
  are those of section 4.4, relative to the containing block that the two probes
  measured. \<open>a\<close> is the anchor's rectangle and \<open>m\<close> the margin.
\<close>

theorem offsets_and_max_size:
  fixes h :: host and s0 :: style and args :: params and s :: style
  defines "e \<equiv> fst (initialise h s0 args)"
    and "a \<equiv> get_target_rect (arg_anchor args)"
    and "m \<equiv> (case arg_margin args of None \<Rightarrow> 0 | Some x \<Rightarrow> x)"
  assumes "smart_position h s0 args = Inr s"
  shows "\<exists>ha va mw mh.
     horizontal_alignment e (rect_width (getBoundingClientRect h (reset_style s0)))
       (arg_horizontal_preferences args) = Inr ha \<and>
     get_horizontal_space e ha = Inr mw \<and>
     vertical_alignment e
       (rect_height (getBoundingClientRect h
          ((horizontal_offset e ha (reset_style s0))\<lparr>style_maxWidth := Px mw\<rparr>)))
       (arg_vertical_preferences args) = Inr va \<and>
     get_vertical_space e va = Inr mh \<and>
     style_maxWidth s = Px mw \<and> style_maxHeight s = Px mh \<and>
     (ha = ''before'' \<longrightarrow> style_right s = Px (container_right e - rect_left a + m)) \<and>
     (ha = ''start'' \<longrightarrow> style_left s = Px (rect_left a - container_left e)) \<and>
     (ha = ''center'' \<longrightarrow>
        style_left s = Px ((rect_left a + rect_right a) / 2 - container_left e)) \<and>
     (ha = ''end'' \<longrightarrow> style_right s = Px (container_right e - rect_right a)) \<and>
     (ha = ''after'' \<longrightarrow> style_left s = Px (rect_right a + m - container_left e)) \<and>
     (va = ''before'' \<longrightarrow> style_bottom s = Px (container_bottom e - rect_top a + m)) \<and>
     (va = ''start'' \<longrightarrow> style_top s = Px (rect_top a - container_top e)) \<and>
     (va = ''center'' \<longrightarrow>
        style_top s = Px ((rect_top a + rect_bottom a) / 2 - container_top e)) \<and>
     (va = ''end'' \<longrightarrow> style_bottom s = Px (container_bottom e - rect_bottom a)) \<and>
     (va = ''after'' \<longrightarrow> style_top s = Px (rect_bottom a + m - container_top e)) \<and>
     is_alignment ha \<and> is_alignment va"
proof -
  from assms(4) obtain ha mw va mh where
    ha: "horizontal_alignment e (rect_width (getBoundingClientRect h (reset_style s0)))
       (arg_horizontal_preferences args) = Inr ha"
    and mw: "get_horizontal_space e ha = Inr mw"
    and va: "vertical_alignment e
       (rect_height (getBoundingClientRect h
          ((horizontal_offset e ha (reset_style s0))\<lparr>style_maxWidth := Px mw\<rparr>)))
       (arg_vertical_preferences args) = Inr va"
    and mh: "get_vertical_space e va = Inr mh"
    and s: "s = (vertical_offset e va
            ((horizontal_offset e ha (reset_style s0))
               \<lparr>style_maxWidth := Px mw, style_maxHeight := Px mh\<rparr>))
          \<lparr>style_transform :=
             Text (''translate('' @ (if ha = ''center'' then ''-50%'' else ''0'')
                   @ '', '' @ (if va = ''center'' then ''-50%'' else ''0'') @ '')'')\<rparr>"
    unfolding e_def by (rule smart_position_Inr)
  have env: "target_rect e = a" "margin e = m"
    "target_center_x e = (rect_left a + rect_right a) / 2"
    "target_center_y e = (rect_top a + rect_bottom a) / 2"
    unfolding e_def a_def m_def initialise_env by simp_all
  have sizes: "style_maxWidth s = Px mw" "style_maxHeight s = Px mh"
    unfolding s by (simp_all add: vertical_offset_keeps)
  have hor: "style_left s = style_left (horizontal_offset e ha (reset_style s0))"
    "style_right s = style_right (horizontal_offset e ha (reset_style s0))"
    unfolding s by (simp_all add: vertical_offset_keeps)
  have h_off:
    "ha = ''before'' \<longrightarrow> style_right s = Px (container_right e - rect_left a + m)"
    "ha = ''start'' \<longrightarrow> style_left s = Px (rect_left a - container_left e)"
    "ha = ''center'' \<longrightarrow>
       style_left s = Px ((rect_left a + rect_right a) / 2 - container_left e)"
    "ha = ''end'' \<longrightarrow> style_right s = Px (container_right e - rect_right a)"
    "ha = ''after'' \<longrightarrow> style_left s = Px (rect_right a + m - container_left e)"
    unfolding hor by (simp_all add: horizontal_offset_def env)
  have v_off:
    "va = ''before'' \<longrightarrow> style_bottom s = Px (container_bottom e - rect_top a + m)"
    "va = ''start'' \<longrightarrow> style_top s = Px (rect_top a - container_top e)"
    "va = ''center'' \<longrightarrow>
       style_top s = Px ((rect_top a + rect_bottom a) / 2 - container_top e)"
    "va = ''end'' \<longrightarrow> style_bottom s = Px (container_bottom e - rect_bottom a)"
    "va = ''after'' \<longrightarrow> style_top s = Px (rect_bottom a + m - container_top e)"
    unfolding s by (simp_all add: vertical_offset_def env)
  have valid: "is_alignment ha" "is_alignment va"
    using ha va by (blast dest: horizontal_alignment_valid vertical_alignment_valid)+
  show ?thesis
    apply (rule exI[of _ ha], rule exI[of _ va], rule exI[of _ mw], rule exI[of _ mh])
    apply (intro conjI)
    apply (fact ha mw va mh sizes h_off v_off valid)+
    done
qed

text \<open>
  Scenario 1: \<open>after\<close> is chosen on both axes; the left offset is
  \<open>150 - container.left = 150\<close>, the top offset 50, max-width 650 and max-height 550.
\<close>

theorem offsets_and_max_size_witness:
  "\<exists>s. smart_position viewport_host blank_style scenario_1 = Inr s \<and>
       horizontal_alignment (fst (initialise viewport_host blank_style scenario_1)) 200
         [''after'', ''before''] = Inr ''after'' \<and>
       style_left s = Px 150 \<and> style_right s = Text [] \<and> style_maxWidth s = Px 650 \<and>
       style_top s = Px 50 \<and> style_bottom s = Text [] \<and> style_maxHeight s = Px 550"
proof -
  let ?e = "fst (initialise viewport_host blank_style scenario_1)"
  let ?s = "\<lparr>style_boxSizing = Text ''border-box'', style_maxHeight = Px 550,
          style_maxWidth = Px 650, style_top = Px 50, style_bottom = Text [],
          style_left = Px 150, style_right = Text [],
          style_transform = Text ''translate(0, 0)''\<rparr>"
  have run: "smart_position viewport_host blank_style scenario_1 = Inr ?s"
    by (rule run_scenario_1)
  have width: "rect_width (getBoundingClientRect viewport_host (reset_style blank_style)) = 200"
    and prefs: "arg_horizontal_preferences scenario_1 = [''after'', ''before'']"
    and env: "get_target_rect (arg_anchor scenario_1) =
        \<lparr>rect_top = 50, rect_bottom = 50, rect_left = 100, rect_right = 150\<rparr>"
      "arg_margin scenario_1 = None" "container_left ?e = 0"
    by (simp_all add: viewport_host_def scenario_1_def initialise_env reset_style_def
        blank_style_def)
  from offsets_and_max_size[OF run] obtain ha where
    ha: "horizontal_alignment ?e 200 [''after'', ''before''] = Inr ha"
    and off: "ha = ''after'' \<longrightarrow> style_left ?s = Px (150 + 0 - 0)"
    unfolding width prefs env by (elim exE conjE) simp
  have "horizontal_alignment ?e 200 [''after'', ''before''] = Inr ''after''"
    by (simp add: horizontal_alignment_def first_or_def initialise_env
        get_horizontal_space_def scenario_1_def viewport_host_def)
  with ha off run show ?thesis by simp
qed

text \<open>
  C8. When \<open>smart_position\<close> returns, the transform is \<open>translate(tx, ty)\<close>, where \<open>tx\<close> is
  \<open>-50%\<close> exactly when the chosen horizontal alignment is \<open>center\<close> and \<open>ty\<close> is \<open>-50%\<close>
  exactly when the chosen vertical alignment is \<open>center\<close>; a component that is not
  \<open>-50%\<close> is the zero translation, which the function writes \<open>0\<close>.
\<close>

theorem center_translation:
  fixes h :: host and s0 :: style and args :: params and s :: style
  defines "e \<equiv> fst (initialise h s0 args)"
  assumes "smart_position h s0 args = Inr s"
  shows "\<exists>ha va mw tx ty.
     horizontal_alignment e (rect_width (getBoundingClientRect h (reset_style s0)))
       (arg_horizontal_preferences args) = Inr ha \<and>
     get_horizontal_space e ha = Inr mw \<and>
     vertical_alignment e
       (rect_height (getBoundingClientRect h
          ((horizontal_offset e ha (reset_style s0))\<lparr>style_maxWidth := Px mw\<rparr>)))
       (arg_vertical_preferences args) = Inr va \<and>
     style_transform s = Text (''translate('' @ tx @ '', '' @ ty @ '')'') \<and>
     (tx = ''-50%'') = (ha = ''center'') \<and> (tx = ''-50%'' \<or> tx = ''0'') \<and>
     (ty = ''-50%'') = (va = ''center'') \<and> (ty = ''-50%'' \<or> ty = ''0'')"
proof -
  from assms(2) obtain ha mw va mh where
    ha: "horizontal_alignment e (rect_width (getBoundingClientRect h (reset_style s0)))
       (arg_horizontal_preferences args) = Inr ha"
    and mw: "get_horizontal_space e ha = Inr mw"
    and va: "vertical_alignment e
       (rect_height (getBoundingClientRect h
          ((horizontal_offset e ha (reset_style s0))\<lparr>style_maxWidth := Px mw\<rparr>)))
       (arg_vertical_preferences args) = Inr va"
    and s: "s = (vertical_offset e va
            ((horizontal_offset e ha (reset_style s0))
               \<lparr>style_maxWidth := Px mw, style_maxHeight := Px mh\<rparr>))
          \<lparr>style_transform :=
             Text (''translate('' @ (if ha = ''center'' then ''-50%'' else ''0'')
                   @ '', '' @ (if va = ''center'' then ''-50%'' else ''0'') @ '')'')\<rparr>"
    unfolding e_def by (rule smart_position_Inr)
  let ?tx = "if ha = ''center'' then ''-50%'' else ''0''"
  let ?ty = "if va = ''center'' then ''-50%'' else ''0''"
  have tr: "style_transform s = Text (''translate('' @ ?tx @ '', '' @ ?ty @ '')'')"
    unfolding s by simp
  have comp: "(?tx = ''-50%'') = (ha = ''center'')" "?tx = ''-50%'' \<or> ?tx = ''0''"
    "(?ty = ''-50%'') = (va = ''center'')" "?ty = ''-50%'' \<or> ?ty = ''0''"
    by simp_all
  show ?thesis
    apply (rule exI[of _ ha], rule exI[of _ va], rule exI[of _ mw])
    apply (rule exI[of _ ?tx], rule exI[of _ ?ty])
    apply (intro conjI)
    apply (fact ha mw va tr comp)+
    done
qed

text \<open>
  Scenario 3: \<open>center\<close> horizontally, \<open>after\<close> vertically, and the transform
  \<open>translate(-50%, 0)\<close>.
\<close>

theorem center_translation_witness:
  "\<exists>s. smart_position viewport_host blank_style scenario_3 = Inr s \<and>
       horizontal_alignment (fst (initialise viewport_host blank_style scenario_3)) 200
         [''center''] = Inr ''center'' \<and>
       style_transform s = Text ''translate(-50%, 0)''"
proof -
  let ?e = "fst (initialise viewport_host blank_style scenario_3)"
  let ?s = "\<lparr>style_boxSizing = Text ''border-box'', style_maxHeight = Px 280,
          style_maxWidth = Px 780, style_top = Px 310, style_bottom = Text [],
          style_left = Px 400, style_right = Text [],
          style_transform = Text ''translate(-50%, 0)''\<rparr>"
  have run: "smart_position viewport_host blank_style scenario_3 = Inr ?s"
    by (rule run_scenario_3)
  have width: "rect_width (getBoundingClientRect viewport_host (reset_style blank_style)) = 200"
    and prefs: "arg_horizontal_preferences scenario_3 = [''center'']"
    by (simp_all add: viewport_host_def scenario_3_def)
  from center_translation[OF run] obtain ha tx ty where
    ha: "horizontal_alignment ?e 200 [''center''] = Inr ha"
    and tr: "style_transform ?s = Text (''translate('' @ tx @ '', '' @ ty @ '')'')"
    and tx: "(tx = ''-50%'') = (ha = ''center'')"
    unfolding width prefs by (elim exE conjE) simp
  have "horizontal_alignment ?e 200 [''center''] = Inr ''center''"
    by (simp add: horizontal_alignment_def first_or_def initialise_env
        get_horizontal_space_def scenario_3_def viewport_host_def)
  with ha tx tr run show ?thesis by simp
qed

text \<open>
  C9. When \<open>smart_position\<close> returns, exactly one of \<open>left\<close> and \<open>right\<close> holds an offset
  and the other is the empty string, and likewise for \<open>top\<close> and \<open>bottom\<close>.
\<close>

theorem one_offset_per_axis:
  assumes "smart_position h s0 args = Inr s"
  shows "((\<exists>x. style_left s = Px x) \<and> style_right s = Text [] \<or>
          (\<exists>x. style_right s = Px x) \<and> style_left s = Text []) \<and>
         ((\<exists>y. style_top s = Px y) \<and> style_bottom s = Text [] \<or>
          (\<exists>y. style_bottom s = Px y) \<and> style_top s = Text [])"
proof -
  let ?e = "fst (initialise h s0 args)"
  from assms obtain ha mw va mh where
    ha: "horizontal_alignment ?e
       (rect_width (getBoundingClientRect h (reset_style s0)))
       (arg_horizontal_preferences args) = Inr ha"
    and mw: "get_horizontal_space ?e ha = Inr mw"
    and va: "vertical_alignment ?e
       (rect_height (getBoundingClientRect h
          ((horizontal_offset ?e ha (reset_style s0))\<lparr>style_maxWidth := Px mw\<rparr>)))
       (arg_vertical_preferences args) = Inr va"
    and mh: "get_vertical_space ?e va = Inr mh"
    and s: "s = (vertical_offset ?e va
            ((horizontal_offset ?e ha (reset_style s0))
               \<lparr>style_maxWidth := Px mw, style_maxHeight := Px mh\<rparr>))
          \<lparr>style_transform :=
             Text (''translate('' @ (if ha = ''center'' then ''-50%'' else ''0'')
                   @ '', '' @ (if va = ''center'' then ''-50%'' else ''0'') @ '')'')\<rparr>"
    by (rule smart_position_Inr)
  let ?s1 = "horizontal_offset ?e ha (reset_style s0)"
  let ?s2 = "?s1\<lparr>style_maxWidth := Px mw, style_maxHeight := Px mh\<rparr>"
  have "is_alignment ha" using ha by (rule horizontal_alignment_valid)
  then have hor: "(\<exists>x. style_left ?s1 = Px x) \<and> style_right ?s1 = Text [] \<or>
         (\<exists>x. style_right ?s1 = Px x) \<and> style_left ?s1 = Text []"
    by (rule horizontal_offset_sets) (simp_all add: reset_style_cleared)
  have "is_alignment va" using va by (rule vertical_alignment_valid)
  then have ver:
    "(\<exists>x. style_top (vertical_offset ?e va ?s2) = Px x)
       \<and> style_bottom (vertical_offset ?e va ?s2) = Text [] \<or>
     (\<exists>x. style_bottom (vertical_offset ?e va ?s2) = Px x)
       \<and> style_top (vertical_offset ?e va ?s2) = Text []"
    by (rule vertical_offset_sets) (simp_all add: horizontal_offset_keeps reset_style_cleared)
  have "style_left s = style_left ?s1" "style_right s = style_right ?s1"
    "style_top s = style_top (vertical_offset ?e va ?s2)"
    "style_bottom s = style_bottom (vertical_offset ?e va ?s2)"
    unfolding s by (simp_all add: vertical_offset_keeps)
  with hor ver show ?thesis by simp
qed

text \<open>
  Scenario 2, on an element whose style had all four offsets set before the call:
  \<open>before\<close> sets \<open>right\<close>, the default \<open>after\<close> sets \<open>top\<close>, and \<open>left\<close> and \<open>bottom\<close>
  end empty.
\<close>

theorem one_offset_per_axis_witness:
  "\<exists>s. smart_position viewport_host
         (blank_style\<lparr>style_top := Px 1, style_bottom := Px 2,
                       style_left := Px 3, style_right := Px 4\<rparr>) scenario_2 = Inr s \<and>
       style_right s = Px 700 \<and> style_left s = Text [] \<and>
       style_top s = Px 50 \<and> style_bottom s = Text []"
proof -
  let ?init = "blank_style\<lparr>style_top := Px 1, style_bottom := Px 2,
                         style_left := Px 3, style_right := Px 4\<rparr>"
  let ?s = "\<lparr>style_boxSizing = Text ''border-box'', style_maxHeight = Px 550,
          style_maxWidth = Px 100, style_top = Px 50, style_bottom = Text [],
          style_left = Text [], style_right = Px 700,
          style_transform = Text ''translate(0, 0)''\<rparr>"
  have run: "smart_position viewport_host ?init scenario_2 = Inr ?s"
    by (simp add: run_defs viewport_host_def scenario_2_def)
  from one_offset_per_axis[OF run] run show ?thesis by simp
qed

text \<open>
  C10 (as stated, it fails). The claim: if the list is not empty and every preference
  has available space at most 0, the first preference is chosen. The fit test comes
  before the comparison with the candidate, and an element without a box has size 0:
  with an anchor point 10 pixels from the left edge and a margin of 10, \<open>before\<close> has
  space -10 and \<open>end\<close> has space 0, which fits a width of 0, so \<open>end\<close> is chosen and
  not the first preference.
\<close>

theorem nonpositive_space_fit_counterexample:
  "rect_width (getBoundingClientRect hidden_host (reset_style blank_style)) = 0 \<and>
   get_horizontal_space (fst (initialise hidden_host blank_style near_edge)) ''before''
     = Inr (- 10) \<and>
   get_horizontal_space (fst (initialise hidden_host blank_style near_edge)) ''end''
     = Inr 0 \<and>
   horizontal_alignment (fst (initialise hidden_host blank_style near_edge)) 0
     [''before'', ''end''] = Inr ''end'' \<and>
   smart_position hidden_host blank_style near_edge =
     Inr \<lparr>style_boxSizing = Text ''border-box'', style_maxHeight = Px 280,
          style_maxWidth = Px 0, style_top = Px 310, style_bottom = Text [],
          style_left = Text [], style_right = Px (- 10),
          style_transform = Text ''translate(0, 0)''\<rparr>"
  by (simp add: run_defs hidden_host_def near_edge_def)

text \<open>
  C10 (amended). On each axis, if the list is not empty and every preference has
  available space at most 0 and less than the element's size (as it is whenever that
  size is positive), the first preference is chosen, even when a later one has more
  space.
\<close>

theorem nonpositive_space_keeps_first:
  "((\<forall>p\<in>set (a # rest). \<exists>q. get_horizontal_space e p = Inr q \<and> q \<le> 0 \<and> q < sz)
      \<longrightarrow> horizontal_alignment e sz (a # rest) = Inr a) \<and>
   ((\<forall>p\<in>set (a # rest). \<exists>q. get_vertical_space e p = Inr q \<and> q \<le> 0 \<and> q < sz)
      \<longrightarrow> vertical_alignment e sz (a # rest) = Inr a)"
proof -
  have hor: "horizontal_alignment e sz (a # rest) = Inr a"
    if all: "\<forall>p\<in>set (a # rest). \<exists>q. get_horizontal_space e p = Inr q \<and> q \<le> 0 \<and> q < sz"
  proof -
    from all have "is_alignment a" using horizontal_space_Inr_iff[of e a] by auto
    then have "first_or (a # rest) ''start'' = a" by (rule first_or_valid)
    then show ?thesis
      unfolding horizontal_alignment_def using loop_keeps_candidate[OF all] by simp
  qed
  have ver: "vertical_alignment e sz (a # rest) = Inr a"
    if all: "\<forall>p\<in>set (a # rest). \<exists>q. get_vertical_space e p = Inr q \<and> q \<le> 0 \<and> q < sz"
  proof -
    from all have "is_alignment a" using vertical_space_Inr_iff[of e a] by auto
    then have "first_or (a # rest) ''after'' = a" by (rule first_or_valid)
    then show ?thesis
      unfolding vertical_alignment_def using loop_keeps_candidate[OF all] by simp
  qed
  from hor ver show ?thesis by blast
qed

text \<open>
  A 5 by 5 anchor in the top left corner with a margin of 10: on both axes \<open>before\<close> has
  space -20 and \<open>end\<close> has -5; \<open>before\<close>, listed first, is chosen.
\<close>

theorem nonpositive_space_keeps_first_witness:
  "get_horizontal_space (fst (initialise viewport_host blank_style corner)) ''before''
     = Inr (- 20) \<and>
   get_horizontal_space (fst (initialise viewport_host blank_style corner)) ''end''
     = Inr (- 5) \<and>
   horizontal_alignment (fst (initialise viewport_host blank_style corner)) 200
     [''before'', ''end''] = Inr ''before'' \<and>
   get_vertical_space (fst (initialise viewport_host blank_style corner)) ''before''
     = Inr (- 20) \<and>
   get_vertical_space (fst (initialise viewport_host blank_style corner)) ''end''
     = Inr (- 5) \<and>
   vertical_alignment (fst (initialise viewport_host blank_style corner)) 100
     [''before'', ''end''] = Inr ''before''"
proof -
  let ?e = "fst (initialise viewport_host blank_style corner)"
  have sp: "get_horizontal_space ?e ''before'' = Inr (- 20)"
    "get_horizontal_space ?e ''end'' = Inr (- 5)"
    "get_vertical_space ?e ''before'' = Inr (- 20)"
    "get_vertical_space ?e ''end'' = Inr (- 5)"
    by (simp_all add: initialise_env get_horizontal_space_def get_vertical_space_def
        corner_def viewport_host_def)
  have "horizontal_alignment ?e 200 (''before'' # [''end'']) = Inr ''before''"
    using nonpositive_space_keeps_first[where e="?e" and a="''before''"
        and rest="[''end'']" and sz=200]
    by (simp add: sp)
  moreover
  have "vertical_alignment ?e 100 (''before'' # [''end'']) = Inr ''before''"
    using nonpositive_space_keeps_first[where e="?e" and a="''before''"
        and rest="[''end'']" and sz=100]
    by (simp add: sp)
  ultimately show ?thesis by (simp add: sp)
qed

end
